theory Spec2Isabelle
  imports Main "HOL-Library.Log_Nat" "HOL-Library.Multiset" "HOL-Library.Product_Lexorder"
begin

section \<open>Floating-point numbers of the data frame\<close>

text \<open>
  The columns \<open>is_correct\<close>, \<open>response_time\<close> and the metric columns of the history frame
  are pandas \<open>float64\<close> columns. A cell is a finite number, an infinity or \<open>NaN\<close>; pandas
  reads a missing cell (SQL \<open>NULL\<close>, Python \<open>None\<close>) as \<open>NaN\<close>, and \<open>notna\<close>,
  \<open>dropna\<close> and \<open>fillna\<close> test exactly that. A finite cell is kept as the rational
  number it denotes. The sign of a zero is not kept: it is visible only in a division by
  zero, and the one divisor of this program is a sum with the literal \<open>0.1\<close>, which is
  never \<open>-0.0\<close>.
\<close>

datatype float64 = NaN | NegInf | F rat | PosInf

definition notna :: "float64 \<Rightarrow> bool" where
  "notna x = (x \<noteq> NaN)"

definition fillna :: "float64 \<Rightarrow> float64 \<Rightarrow> float64" where
  "fillna v x = (if x = NaN then v else x)"

text \<open>Rounding to the nearest integer, ties to the even one.\<close>

definition round_even :: "rat \<Rightarrow> int" where
  "round_even q =
     (let n = \<lfloor>q\<rfloor>; r = q - of_int n
      in if r < 1 / 2 then n
         else if 1 / 2 < r then n + 1
         else if even n then n else n + 1)"

text \<open>The binary exponent of a non-zero rational: \<open>2 powi expo x \<le> \<bar>x\<bar> < 2 powi (expo x + 1)\<close>.\<close>

definition expo :: "rat \<Rightarrow> int" where
  "expo x =
     (let (n, d) = quotient_of \<bar>x\<bar>;
          k = int (floorlog 2 (nat n)) - int (floorlog 2 (nat d))
      in if 2 powi k \<le> \<bar>x\<bar> then k else k - 1)"

text \<open>
  IEEE 754 binary64, round to nearest, ties to even: 53 significant bits, the least
  exponent \<open>-1022\<close> (below it the spacing stays \<open>2 powi (-1074)\<close>), and a result of
  magnitude \<open>2 ^ 1024\<close> or more is an infinity.
\<close>

definition round64 :: "rat \<Rightarrow> float64" where
  "round64 x =
     (if x = 0 then F 0
      else let u = 2 powi (max (expo x) (- 1022) - 52);
               y = of_int (round_even (x / u)) * u
           in if 2 ^ 1024 \<le> \<bar>y\<bar> then (if 0 < x then PosInf else NegInf) else F y)"

text \<open>Addition and division of \<open>float64\<close> values, as numpy computes them on columns.\<close>

fun fadd :: "float64 \<Rightarrow> float64 \<Rightarrow> float64" where
  "fadd NaN _ = NaN"
| "fadd _ NaN = NaN"
| "fadd (F a) (F b) = round64 (a + b)"
| "fadd PosInf NegInf = NaN"
| "fadd NegInf PosInf = NaN"
| "fadd PosInf _ = PosInf"
| "fadd _ PosInf = PosInf"
| "fadd NegInf _ = NegInf"
| "fadd _ NegInf = NegInf"

fun fdiv :: "float64 \<Rightarrow> float64 \<Rightarrow> float64" where
  "fdiv NaN _ = NaN"
| "fdiv _ NaN = NaN"
| "fdiv (F a) (F b) =
     (if b = 0 then (if 0 < a then PosInf else if a < 0 then NegInf else NaN)
      else round64 (a / b))"
| "fdiv (F a) _ = F 0"
| "fdiv PosInf (F b) = (if 0 \<le> b then PosInf else NegInf)"
| "fdiv NegInf (F b) = (if 0 \<le> b then NegInf else PosInf)"
| "fdiv _ _ = NaN"

text \<open>The float literals of the source.\<close>

definition lit_1_0 :: float64 where "lit_1_0 = round64 1"
definition lit_0_5 :: float64 where "lit_0_5 = round64 (1 / 2)"
definition lit_0_0 :: float64 where "lit_0_0 = round64 0"
definition lit_0_1 :: float64 where "lit_0_1 = round64 (1 / 10)"
definition lit_1_9 :: float64 where "lit_1_9 = round64 (19 / 10)"

section \<open>The history frame\<close>

text \<open>
  One row of the frame that \<open>get_chat_history\<close> returns. The field \<open>row_id\<close> is the
  column \<open>id\<close>.
\<close>

record row =
  row_id :: int
  timestamp :: string
  question :: string
  answer :: string
  feedback :: string
  correct_answer :: string
  is_correct :: float64
  response_time :: float64
  bleu_score :: float64
  similarity_score :: float64
  word_count :: float64
  relevance_score :: float64

section \<open>Feedback submission (\<open>display_feedback_form\<close>)\<close>

definition feedback_options :: "string list" where
  "feedback_options = [''Accurate'', ''Partially accurate'', ''Inaccurate'']"

text \<open>
  Line 85: \<open>1.0 if feedback == "Accurate" else (0.5 if feedback == "Partially accurate" else 0.0)\<close>.
\<close>

definition is_correct_of :: "string \<Rightarrow> float64" where
  "is_correct_of fb =
     (if fb = ''Accurate'' then lit_1_0
      else (if fb = ''Partially accurate'' then lit_0_5 else lit_0_0))"

text \<open>Lines 86 to 88: the comment, when not empty, is appended after \<open>": "\<close>.\<close>

definition combined_feedback :: "string \<Rightarrow> string \<Rightarrow> string" where
  "combined_feedback fb feedback_comment =
     (if feedback_comment \<noteq> [] then fb @ '': '' @ feedback_comment else fb)"

text \<open>The six arguments of the call of \<open>save_to_db\<close>, in its order.\<close>

record save_args =
  sv_question :: string
  sv_answer :: string
  sv_feedback :: string
  sv_correct_answer :: string
  sv_is_correct :: float64
  sv_response_time :: float64

definition feedback_save_args ::
  "string \<Rightarrow> string \<Rightarrow> float64 \<Rightarrow> string \<Rightarrow> string \<Rightarrow> string \<Rightarrow> save_args" where
  "feedback_save_args cur_question cur_answer cur_time fb correct feedback_comment =
     \<lparr> sv_question = cur_question,
       sv_answer = cur_answer,
       sv_feedback = combined_feedback fb feedback_comment,
       sv_correct_answer = correct,
       sv_is_correct = is_correct_of fb,
       sv_response_time = cur_time \<rparr>"

section \<open>Efficiency score (\<open>display_metrics_analysis\<close>, line 263)\<close>

text \<open>
  \<open>analysis_df['is_correct'] / (analysis_df['response_time'].fillna(0) + 0.1)\<close>, for
  one row.
\<close>

definition efficiency_score :: "row \<Rightarrow> float64" where
  "efficiency_score r = fdiv (is_correct r) (fadd (fillna (F 0) (response_time r)) lit_0_1)"


text \<open>
  \<open>==\<close> on floats: \<open>NaN\<close> equals nothing, itself included.
\<close>

definition feq :: "float64 \<Rightarrow> float64 \<Rightarrow> bool" where
  "feq a b = (a \<noteq> NaN \<and> b \<noteq> NaN \<and> a = b)"

section \<open>Chat page (\<open>display_chat_page\<close>)\<close>

text \<open>
  \<open>st.session_state\<close> as the script finds it: each of the four keys may be missing.
\<close>

record session_keys =
  key_current_question :: "string option"
  key_current_answer :: "string option"
  key_response_time :: "float64 option"
  key_feedback_given :: "bool option"

text \<open>
  The session state after the initialisation of lines 22 to 30, where the four keys are
  present. The field \<open>response_time_s\<close> is the key \<open>response_time\<close>.
\<close>

record session_state =
  current_question :: string
  current_answer :: string
  response_time_s :: float64
  feedback_given :: bool

definition init_session :: "session_keys \<Rightarrow> session_state" where
  "init_session k =
     \<lparr> current_question = (case key_current_question k of None \<Rightarrow> [] | Some q \<Rightarrow> q),
       current_answer = (case key_current_answer k of None \<Rightarrow> [] | Some a \<Rightarrow> a),
       response_time_s = (case key_response_time k of None \<Rightarrow> lit_0_0 | Some t \<Rightarrow> t),
       feedback_given = (case key_feedback_given k of None \<Rightarrow> False | Some b \<Rightarrow> b) \<rparr>"

definition keys_of :: "session_state \<Rightarrow> session_keys" where
  "keys_of s =
     \<lparr> key_current_question = Some (current_question s),
       key_current_answer = Some (current_answer s),
       key_response_time = Some (response_time_s s),
       key_feedback_given = Some (feedback_given s) \<rparr>"

text \<open>What the widgets of the page return in one run of the script.\<close>

record chat_widgets =
  user_question :: string
  submit_button :: bool
  next_question_button :: bool
  feedback_radio :: string
  correct_answer_input :: string
  feedback_comment_input :: string
  submitted :: bool

text \<open>
  The calls that leave the page: the generation call, the database write and
  \<open>st.rerun()\<close>, which ends the run of the script. Calls that only render
  (\<open>st.subheader\<close>, \<open>st.markdown\<close>, \<open>st.info\<close>, \<open>st.success\<close>) are left out.
\<close>

datatype effect = Generate string | SaveToDb save_args | Rerun

definition display_feedback_form ::
  "session_state \<Rightarrow> chat_widgets \<Rightarrow> session_state \<times> effect list" where
  "display_feedback_form s w =
     (if submitted w then
        (s\<lparr>feedback_given := True\<rparr>,
         [SaveToDb (feedback_save_args (current_question s) (current_answer s) (response_time_s s)
                      (feedback_radio w) (correct_answer_input w) (feedback_comment_input w)),
          Rerun])
      else (s, []))"

text \<open>
  \<open>generate_response\<close> (of \<open>llm.py\<close>, with the pipeline fixed) is a parameter: it
  returns the answer and the response time.
\<close>

definition display_chat_page ::
  "(string \<Rightarrow> string \<times> float64) \<Rightarrow> session_keys \<Rightarrow> chat_widgets \<Rightarrow> session_state \<times> effect list" where
  "display_chat_page generate_response k w =
     (let s = init_session k in
      if submit_button w \<and> user_question w \<noteq> [] then
        (let s1 = s\<lparr>current_question := user_question w, current_answer := [],
                     feedback_given := False\<rparr>;
             (answer, response_time) = generate_response (user_question w)
         in (s1\<lparr>current_answer := answer, response_time_s := response_time\<rparr>,
             [Generate (user_question w), Rerun]))
      else if current_question s \<noteq> [] \<and> current_answer s \<noteq> [] then
        (if \<not> feedback_given s then display_feedback_form s w
         else if next_question_button w then
           (s\<lparr>current_question := [], current_answer := [], response_time_s := lit_0_0,
              feedback_given := False\<rparr>, [Rerun])
         else (s, []))
      else (s, []))"

section \<open>History list (\<open>display_history_list\<close>)\<close>

datatype py_error = KeyError string

definition filter_options :: "(string \<times> float64 option) list" where
  "filter_options =
     [(''Show All'', None),
      (''Accurate only'', Some lit_1_0),
      (''Partially accurate only'', Some lit_0_5),
      (''Inaccurate only'', Some lit_0_0)]"

text \<open>Lines 139 to 145, for a filter value already looked up.\<close>

definition filter_rows :: "float64 option \<Rightarrow> row list \<Rightarrow> row list" where
  "filter_rows filter_value history_df =
     (case filter_value of
        Some v \<Rightarrow> filter (\<lambda>r. notna (is_correct r) \<and> feq (is_correct r) v) history_df
      | None \<Rightarrow> history_df)"

text \<open>Lines 138 to 145: \<open>filter_options[display_option]\<close> raises on an unknown key.\<close>

definition filtered_df :: "string \<Rightarrow> row list \<Rightarrow> py_error + row list" where
  "filtered_df display_option history_df =
     (case map_of filter_options display_option of
        None \<Rightarrow> Inl (KeyError display_option)
      | Some filter_value \<Rightarrow> Inr (filter_rows filter_value history_df))"

definition items_per_page :: int where
  "items_per_page = 5"

definition total_pages :: "row list \<Rightarrow> int" where
  "total_pages df = (int (length df) + items_per_page - 1) div items_per_page"

text \<open>
  \<open>df.iloc[start:end]\<close>: a negative bound counts from the end, and bounds outside the
  frame are cut to it.
\<close>

definition iloc :: "'a list \<Rightarrow> int \<Rightarrow> int \<Rightarrow> 'a list" where
  "iloc xs start end =
     (let n = int (length xs);
          s = (if start < 0 then max 0 (start + n) else min start n);
          e = (if end < 0 then max 0 (end + n) else min end n)
      in take (nat (e - s)) (drop (nat s) xs))"

text \<open>Lines 162 to 164.\<close>

definition paginated_df :: "row list \<Rightarrow> int \<Rightarrow> row list" where
  "paginated_df df current_page =
     (let start_idx = (current_page - 1) * items_per_page;
          end_idx = start_idx + items_per_page
      in iloc df start_idx end_idx)"

text \<open>
  What the history tab shows: the message of line 148, or the rows of the page with the
  three numbers of the caption of line 185. The parameter \<open>number_input\<close> is the page
  widget: given \<open>min_value\<close> and \<open>max_value\<close> it returns the page the user has set.
\<close>

datatype history_view =
    NoHistoryMatches
  | HistoryPage "row list" int int int

definition display_history_list ::
  "string \<Rightarrow> (int \<Rightarrow> int \<Rightarrow> int) \<Rightarrow> row list \<Rightarrow> py_error + history_view" where
  "display_history_list display_option number_input history_df =
     (case filtered_df display_option history_df of
        Inl e \<Rightarrow> Inl e
      | Inr df \<Rightarrow>
          if df = [] then Inr NoHistoryMatches
          else
            let total_items = int (length df);
                current_page = number_input 1 (total_pages df);
                start_idx = (current_page - 1) * items_per_page;
                end_idx = start_idx + items_per_page
            in Inr (HistoryPage (paginated_df df current_page)
                      (start_idx + 1) (min end_idx total_items) total_items))"

section \<open>Metrics analysis (\<open>display_metrics_analysis\<close>)\<close>

text \<open>Line 192: \<open>history_df.dropna(subset=['is_correct'])\<close>.\<close>

definition analysis_df :: "row list \<Rightarrow> row list" where
  "analysis_df history_df = filter (\<lambda>r. notna (is_correct r)) history_df"

text \<open>Lines 197 and 198: the column \<open>Accuracy\<close>; a score that is no key has no label.\<close>

definition accuracy_labels :: "(float64 \<times> string) list" where
  "accuracy_labels =
     [(lit_1_0, ''Accurate''), (lit_0_5, ''Partially accurate''), (lit_0_0, ''Inaccurate'')]"

definition Accuracy :: "row \<Rightarrow> string option" where
  "Accuracy r = map_of accuracy_labels (is_correct r)"

text \<open>
  \<open>value_counts()\<close>: the missing labels are dropped, each label is counted, and the
  labels are put in the order of falling counts.
\<close>

definition value_counts :: "string option list \<Rightarrow> (string \<times> nat) list" where
  "value_counts col =
     (let present = concat (map (\<lambda>l. case l of None \<Rightarrow> [] | Some x \<Rightarrow> [x]) col)
      in sort_key (\<lambda>(l, c). - int c)
           (map (\<lambda>l. (l, count_list present l)) (rev (remdups (rev present)))))"

text \<open>The numeric columns by name; \<open>None\<close> when the frame has no such column.\<close>

definition column :: "string \<Rightarrow> (row \<Rightarrow> float64) option" where
  "column name =
     map_of [(''response_time'', response_time), (''bleu_score'', bleu_score),
             (''similarity_score'', similarity_score), (''word_count'', word_count),
             (''relevance_score'', relevance_score), (''is_correct'', is_correct)] name"

definition metric_options :: "string list" where
  "metric_options = [''bleu_score'', ''similarity_score'', ''relevance_score'', ''word_count'']"

definition stats_cols :: "string list" where
  "stats_cols =
     [''response_time'', ''bleu_score'', ''similarity_score'', ''word_count'', ''relevance_score'']"

text \<open>
  Lines 211 to 214 and 239 to 242: the columns of the frame with a value that is not
  missing.
\<close>

definition valid_cols :: "string list \<Rightarrow> row list \<Rightarrow> string list" where
  "valid_cols names df =
     filter (\<lambda>m. case column m of None \<Rightarrow> False | Some f \<Rightarrow> \<exists>r \<in> set df. notna (f r)) names"

text \<open>
  Line 223: the rows of \<open>response_time\<close>, the chosen metric and \<open>Accuracy\<close> where none
  of the three is missing.
\<close>

definition chart_data :: "(row \<Rightarrow> float64) \<Rightarrow> row list \<Rightarrow> (float64 \<times> float64 \<times> string) list" where
  "chart_data metric df =
     concat (map (\<lambda>r. case Accuracy r of
                          None \<Rightarrow> []
                        | Some l \<Rightarrow>
                            if notna (response_time r) \<and> notna (metric r)
                            then [(response_time r, metric r, l)] else []) df)"

text \<open>
  Line 253: \<open>groupby('Accuracy')\<close> drops the rows without a label and puts the groups in
  the order of their labels; \<open>mean\<close> (of pandas) is a parameter.
\<close>

definition accuracy_groups ::
  "(float64 list \<Rightarrow> float64) \<Rightarrow> string list \<Rightarrow> row list \<Rightarrow> (string \<times> (string \<times> float64) list) list" where
  "accuracy_groups mean cols df =
     map (\<lambda>l. (l, concat (map (\<lambda>c. case column c of
                                        None \<Rightarrow> []
                                      | Some f \<Rightarrow> [(c, mean (map f (filter (\<lambda>r. Accuracy r = Some l) df)))])
                          cols)))
       (filter (\<lambda>l. \<exists>r \<in> set df. Accuracy r = Some l)
          [''Accurate'', ''Inaccurate'', ''Partially accurate''])"

text \<open>
  Line 265: \<open>sort_values('efficiency_score', ascending=False)\<close>. pandas hands the
  column of scores to numpy's \<open>argsort\<close> and takes the rows of the frame at the positions
  it returns. The sort is numpy's quicksort and has no second key, so it fixes no order
  among rows of equal score. \<open>argsort\<close> is therefore a parameter: any function that
  returns the positions of the column, each once, with greater scores first and \<open>NaN\<close>
  last (\<open>argsort_desc_ok\<close>; for the key \<open>desc_key\<close>, a smaller key is a greater score).
\<close>

fun desc_key :: "float64 \<Rightarrow> nat \<times> rat" where
  "desc_key PosInf = (0, 0)"
| "desc_key (F a) = (1, - a)"
| "desc_key NegInf = (2, 0)"
| "desc_key NaN = (3, 0)"

definition argsort_desc_ok :: "(float64 list \<Rightarrow> nat list) \<Rightarrow> bool" where
  "argsort_desc_ok argsort =
     (\<forall>keys. mset (argsort keys) = mset [0..<length keys] \<and>
             sorted (map (\<lambda>i. desc_key (keys ! i)) (argsort keys)))"

definition sort_values :: "(float64 list \<Rightarrow> nat list) \<Rightarrow> row list \<Rightarrow> row list" where
  "sort_values argsort df = map (\<lambda>i. df ! i) (argsort (map efficiency_score df))"

text \<open>Line 265: \<open>head(10)\<close> of the sorted frame.\<close>

definition top_efficiency :: "(float64 list \<Rightarrow> nat list) \<Rightarrow> row list \<Rightarrow> row list" where
  "top_efficiency argsort df = take 10 (sort_values argsort df)"

text \<open>
  One sort that \<open>argsort_desc_ok\<close> admits, for examples: the insertion sort of the
  positions, which keeps the order of the frame among equal scores.
\<close>

definition stable_argsort :: "float64 list \<Rightarrow> nat list" where
  "stable_argsort keys = sort_key (\<lambda>i. desc_key (keys ! i)) [0..<length keys]"

text \<open>
  What each of the five parts of the tab shows. The parameter \<open>describe\<close> stands for the
  statistics that pandas computes of one column, \<open>selectbox\<close> for the choice the user
  makes among the options of line 217. The frame has the columns \<open>id\<close> and
  \<open>response_time\<close>, so the tests of lines 262 and 264 on the column names hold. The
  handler of line 255 catches what \<open>groupby\<close> and \<open>mean\<close> raise; \<open>mean\<close> is total
  here, so the warning of line 256 is no result of the model.
\<close>

datatype 'd view =
    Warning string
  | Info string
  | AccuracyChart "(string \<times> nat) list"
  | ScatterChart string "(float64 \<times> float64 \<times> string) list"
  | StatsTable "(string \<times> 'd) list"
  | GroupTable "(string \<times> (string \<times> float64) list) list"
  | EfficiencyChart "(int \<times> float64) list"

definition accuracy_view :: "row list \<Rightarrow> 'd view" where
  "accuracy_view df =
     (let accuracy_counts = value_counts (map Accuracy df)
      in if accuracy_counts \<noteq> [] then AccuracyChart accuracy_counts
         else Info ''No accuracy data available.'')"

definition metric_view :: "(string list \<Rightarrow> string) \<Rightarrow> row list \<Rightarrow> py_error + 'd view" where
  "metric_view selectbox df =
     (let valid_metric_options = valid_cols metric_options df
      in if valid_metric_options \<noteq> [] then
           (let metric_option = selectbox valid_metric_options
            in case column metric_option of
                 None \<Rightarrow> Inl (KeyError metric_option)
               | Some f \<Rightarrow>
                   if chart_data f df \<noteq> [] then Inr (ScatterChart metric_option (chart_data f df))
                   else Inr (Info (''No valid data for selected metric ('' @ metric_option
                                   @ '') and response time.'')))
         else Inr (Info ''No metric data available for comparison with response time.''))"

definition stats_view :: "(float64 list \<Rightarrow> 'd) \<Rightarrow> row list \<Rightarrow> 'd view" where
  "stats_view describe df =
     (let valid_stats_cols = valid_cols stats_cols df
      in if valid_stats_cols \<noteq> [] then
           StatsTable (concat (map (\<lambda>c. case column c of
                                           None \<Rightarrow> []
                                         | Some f \<Rightarrow> [(c, describe (map f df))]) valid_stats_cols))
         else Info ''No metrics data available to compute statistics.'')"

definition group_view :: "(float64 list \<Rightarrow> float64) \<Rightarrow> row list \<Rightarrow> 'd view" where
  "group_view mean df =
     (let valid_stats_cols = valid_cols stats_cols df
      in if valid_stats_cols \<noteq> [] then GroupTable (accuracy_groups mean valid_stats_cols df)
         else Info ''No data available to calculate average scores by accuracy level.'')"

definition efficiency_view :: "(float64 list \<Rightarrow> nat list) \<Rightarrow> row list \<Rightarrow> 'd view" where
  "efficiency_view argsort df =
     (if \<exists>r \<in> set df. notna (response_time r) then
        (if top_efficiency argsort df \<noteq> [] then
           EfficiencyChart (map (\<lambda>r. (row_id r, efficiency_score r)) (top_efficiency argsort df))
         else Info ''No efficiency score data available.'')
      else Info ''No response time data available to calculate efficiency score.'')"

definition display_metrics_analysis ::
  "(float64 list \<Rightarrow> 'd) \<Rightarrow> (float64 list \<Rightarrow> float64) \<Rightarrow> (string list \<Rightarrow> string) \<Rightarrow>
   (float64 list \<Rightarrow> nat list) \<Rightarrow> row list \<Rightarrow> py_error + 'd view list" where
  "display_metrics_analysis describe mean selectbox argsort history_df =
     (let df = analysis_df history_df
      in if df = [] then Inr [Warning ''No evaluation data available for analysis.'']
         else case metric_view selectbox df of
                Inl e \<Rightarrow> Inl e
              | Inr mv \<Rightarrow>
                  Inr [accuracy_view df, mv, stats_view describe df, group_view mean df,
                       efficiency_view argsort df])"

text \<open>A row with the given \<open>id\<close>, score and response time and nothing else, for examples.\<close>

definition mk_row :: "int \<Rightarrow> float64 \<Rightarrow> float64 \<Rightarrow> row" where
  "mk_row i a t =
     \<lparr> row_id = i, timestamp = [], question = [], answer = [], feedback = [],
       correct_answer = [], is_correct = a, response_time = t, bleu_score = NaN,
       similarity_score = NaN, word_count = NaN, relevance_score = NaN \<rparr>"


text \<open>Twelve rows with the ids 1 to 12, for examples.\<close>

definition rows12 :: "row list" where
  "rows12 = map (\<lambda>i. mk_row i lit_1_0 lit_0_0) [1, 2, 3, 4, 5, 6, 7, 8, 9, 10, 11, 12]"

text \<open>
  A run of the chat page in which only the question form is used: the question text and
  the state of its button are given, no other button is pressed.
\<close>

definition question_form :: "string \<Rightarrow> bool \<Rightarrow> chat_widgets" where
  "question_form q pressed =
     \<lparr> user_question = q, submit_button = pressed, next_question_button = False,
       feedback_radio = ''Accurate'', correct_answer_input = [], feedback_comment_input = [],
       submitted = False \<rparr>"

text \<open>A session in which an answer is shown and no feedback has been given yet.\<close>

definition answered_session :: session_state where
  "answered_session =
     \<lparr> current_question = ''What is HOL?'', current_answer = ''A logic.'',
       response_time_s = lit_1_9, feedback_given = False \<rparr>"

text \<open>Two rows with feedback, the first without a response time, for examples.\<close>

definition rows_missing_time :: "row list" where
  "rows_missing_time = [mk_row 1 lit_1_0 NaN, mk_row 2 lit_0_5 lit_1_9]"

section \<open>Facts about rounding\<close>

lemma expo_bounds:
  assumes "x \<noteq> 0"
  shows "2 powi (expo x) \<le> \<bar>x\<bar> \<and> \<bar>x\<bar> < 2 powi (expo x + 1)"
proof -
  define a where "a = \<bar>x\<bar>"
  have a0: "0 < a" using assms by (simp add: a_def)
  obtain n d where q: "quotient_of a = (n, d)" by (cases "quotient_of a")
  have d: "0 < d" using q quotient_of_denom_pos by blast
  have a: "a = of_int n / of_int d" using q quotient_of_div by blast
  have n: "0 < n" using a0 d a by (simp add: zero_less_divide_iff)
  define fn where "fn = floorlog 2 (nat n)"
  define fd where "fd = floorlog 2 (nat d)"
  have fn1: "1 \<le> fn" using n by (simp add: fn_def floorlog_def)
  have fd1: "1 \<le> fd" using d by (simp add: fd_def floorlog_def)
  have bn: "2 ^ (fn - 1) \<le> nat n" "nat n < 2 ^ fn"
    using floorlog_bounds[of "nat n" 2] n by (simp_all add: fn_def)
  have bd: "2 ^ (fd - 1) \<le> nat d" "nat d < 2 ^ fd"
    using floorlog_bounds[of "nat d" 2] d by (simp_all add: fd_def)
  have rn: "(2::rat) ^ (fn - 1) \<le> of_int n" "(of_int n :: rat) < 2 ^ fn"
  proof -
    have "(of_nat (2 ^ (fn - 1)) :: rat) \<le> of_nat (nat n)" using bn(1) of_nat_le_iff by blast
    then show "(2::rat) ^ (fn - 1) \<le> of_int n" using n by simp
    have "(of_nat (nat n) :: rat) < of_nat (2 ^ fn)" using bn(2) of_nat_less_iff by blast
    then show "(of_int n :: rat) < 2 ^ fn" using n by simp
  qed
  have rd: "(2::rat) ^ (fd - 1) \<le> of_int d" "(of_int d :: rat) < 2 ^ fd"
  proof -
    have "(of_nat (2 ^ (fd - 1)) :: rat) \<le> of_nat (nat d)" using bd(1) of_nat_le_iff by blast
    then show "(2::rat) ^ (fd - 1) \<le> of_int d" using d by simp
    have "(of_nat (nat d) :: rat) < of_nat (2 ^ fd)" using bd(2) of_nat_less_iff by blast
    then show "(of_int d :: rat) < 2 ^ fd" using d by simp
  qed
  have low: "(2::rat) powi (int fn - int fd - 1) \<le> a"
  proof -
    have "(2::rat) ^ (fn - 1) / 2 ^ fd \<le> of_int n / of_int d"
      using d n rn(1) rd(2) by (intro frac_le) auto
    moreover have "(2::rat) powi (int fn - int fd - 1) = 2 ^ (fn - 1) / 2 ^ fd"
    proof -
      have eq: "int fn - int fd - 1 = int (fn - 1) - int fd" using fn1 by simp
      have "(2::rat) powi (int (fn - 1) - int fd) = 2 powi int (fn - 1) / 2 powi int fd"
        by (rule power_int_diff) simp
      then show ?thesis unfolding eq by (simp only: power_int_of_nat)
    qed
    ultimately show ?thesis using a by simp
  qed
  have up: "a < (2::rat) powi (int fn - int fd + 1)"
  proof -
    have "of_int n / of_int d < (2::rat) ^ fn / 2 ^ (fd - 1)"
      using d n rn(2) rd(1) by (intro frac_less) auto
    moreover have "(2::rat) powi (int fn - int fd + 1) = 2 ^ fn / 2 ^ (fd - 1)"
    proof -
      have eq: "int fn - int fd + 1 = int fn - int (fd - 1)" using fd1 by simp
      have "(2::rat) powi (int fn - int (fd - 1)) = 2 powi int fn / 2 powi int (fd - 1)"
        by (rule power_int_diff) simp
      then show ?thesis unfolding eq by (simp only: power_int_of_nat)
    qed
    ultimately show ?thesis using a by simp
  qed
  have e: "expo x = (if 2 powi (int fn - int fd) \<le> a then int fn - int fd else int fn - int fd - 1)"
    unfolding expo_def a_def[symmetric] q fn_def fd_def by (simp add: Let_def)
  show ?thesis
    unfolding a_def[symmetric] e using low up by auto
qed

lemma expo_eqI:
  assumes "2 powi e \<le> \<bar>x\<bar>" and "\<bar>x\<bar> < 2 powi (e + 1)"
  shows "expo x = e"
proof -
  have p: "(0::rat) < 2 powi e" by simp
  have "0 < \<bar>x\<bar>" using p assms(1) by (rule less_le_trans)
  then have x0: "x \<noteq> 0" by simp
  note b = expo_bounds[OF x0]
  have "(2::rat) powi e < 2 powi (expo x + 1)" using assms(1) b by linarith
  then have 1: "e < expo x + 1"
    using power_int_increasing[of "expo x + 1" e "2::rat"] by (cases "e < expo x + 1") auto
  have "(2::rat) powi (expo x) < 2 powi (e + 1)" using assms(2) b by linarith
  then have 2: "expo x < e + 1"
    using power_int_increasing[of "e + 1" "expo x" "2::rat"] by (cases "expo x < e + 1") auto
  show ?thesis using 1 2 by linarith
qed

lemma round_even_eqI:
  assumes "\<bar>q - of_int m\<bar> < 1 / 2"
  shows "round_even q = m"
proof -
  have "\<lfloor>q\<rfloor> = m \<or> \<lfloor>q\<rfloor> = m - 1"
    using assms by (auto simp: floor_eq_iff abs_less_iff)
  then show ?thesis
  proof
    assume f: "\<lfloor>q\<rfloor> = m"
    have "q - of_int m < 1 / 2" using assms by linarith
    then show ?thesis unfolding round_even_def f by (simp add: Let_def)
  next
    assume f: "\<lfloor>q\<rfloor> = m - 1"
    have "of_int (m - 1) = (of_int m :: rat) - 1" by simp
    then have "1 / 2 < q - of_int (m - 1)" using assms by linarith
    then show ?thesis unfolding round_even_def f by (simp add: Let_def)
  qed
qed


lemma round64_eqI:
  assumes e: "2 powi e \<le> \<bar>x\<bar>" "\<bar>x\<bar> < 2 powi (e + 1)" "- 1022 \<le> e"
    and m: "\<bar>x / 2 powi (e - 52) - of_int m\<bar> < 1 / 2"
    and y: "y = of_int m * 2 powi (e - 52)" "\<bar>y\<bar> < 2 ^ 1024"
  shows "round64 x = F y"
proof -
  have p: "(0::rat) < 2 powi e" by simp
  have "0 < \<bar>x\<bar>" using p e(1) by (rule less_le_trans)
  then have x0: "x \<noteq> 0" by simp
  have ex: "expo x = e" using e(1,2) by (rule expo_eqI)
  have mx: "max e (- 1022) = e" using e(3) by simp
  have r: "round_even (x / 2 powi (e - 52)) = m" using m by (rule round_even_eqI)
  show ?thesis
    unfolding round64_def ex mx Let_def r y(1)[symmetric] using x0 y(2) by simp
qed


lemma round64_pos:
  assumes "2 powi (- 1074) \<le> x"
  shows "round64 x = PosInf \<or> (\<exists>y. 0 < y \<and> round64 x = F y)"
proof -
  have p: "(0::rat) < 2 powi (- 1074)" by simp
  have x0: "0 < x" using p assms by (rule less_le_trans)
  define u :: rat where "u = 2 powi (max (expo x) (- 1022) - 52)"
  have u0: "0 < u" by (simp add: u_def)
  have "u \<le> x"
  proof (cases "- 1022 \<le> expo x")
    case True
    then have "u = 2 powi (expo x - 52)" by (simp add: u_def max_def)
    also have "\<dots> \<le> 2 powi (expo x)" by (rule power_int_increasing) simp_all
    also have "\<dots> \<le> x" using expo_bounds[of x] x0 by simp
    finally show ?thesis .
  next
    case False
    then have "u = 2 powi (- 1074)" by (simp add: u_def max_def)
    then show ?thesis using assms by simp
  qed
  then have "1 \<le> x / u" using u0 by (simp add: le_divide_eq)
  then have "1 \<le> \<lfloor>x / u\<rfloor>" by (simp add: le_floor_iff)
  moreover have "\<lfloor>x / u\<rfloor> \<le> round_even (x / u)" by (simp add: round_even_def Let_def)
  ultimately have "1 \<le> round_even (x / u)" by linarith
  then have "0 < (of_int (round_even (x / u)) :: rat)" by simp
  then have y0: "0 < of_int (round_even (x / u)) * u" using u0 by simp
  show ?thesis
    using x0 y0 unfolding round64_def u_def[symmetric] Let_def by auto
qed

lemma lit_1_0_eq: "lit_1_0 = F 1"
  unfolding lit_1_0_def
  by (rule round64_eqI[where e = 0 and m = 4503599627370496]) (simp_all add: power_int_minus)

lemma lit_0_5_eq: "lit_0_5 = F (1 / 2)"
  unfolding lit_0_5_def
  by (rule round64_eqI[where e = "- 1" and m = 4503599627370496]) (simp_all add: power_int_minus)

lemma lit_0_0_eq: "lit_0_0 = F 0"
  by (simp add: lit_0_0_def round64_def)

lemma lit_0_1_eq: "lit_0_1 = F (3602879701896397 / 36028797018963968)"
  unfolding lit_0_1_def
  by (rule round64_eqI[where e = "- 4" and m = 7205759403792794]) (simp_all add: power_int_minus)

lemma lit_1_9_eq: "lit_1_9 = F (4278419646001971 / 2251799813685248)"
  unfolding lit_1_9_def
  by (rule round64_eqI[where e = 0 and m = 8556839292003942]) (simp_all add: power_int_minus)

lemma lit_0_1_pos: "\<exists>c. lit_0_1 = F c \<and> 2 powi (- 1074) \<le> c"
proof (intro exI conjI)
  show "lit_0_1 = F (3602879701896397 / 36028797018963968)" by (rule lit_0_1_eq)
  show "2 powi (- 1074) \<le> (3602879701896397 / 36028797018963968 :: rat)"
    by (simp add: power_int_minus)
qed

lemma fadd_0_0_1: "fadd (F 0) lit_0_1 = F (3602879701896397 / 36028797018963968)"
  unfolding lit_0_1_eq fadd.simps
  by (simp, rule round64_eqI[where e = "- 4" and m = 7205759403792794])
     (simp_all add: power_int_minus)

lemma fdiv_1_0_1: "fdiv (F 1) (F (3602879701896397 / 36028797018963968)) = F 10"
  unfolding fdiv.simps
  by (simp, rule round64_eqI[where e = 3 and m = 5629499534213120])
     (simp_all add: power_int_minus)

lemma fadd_1_9_0_1: "fadd lit_1_9 lit_0_1 = F 2"
  unfolding lit_1_9_eq lit_0_1_eq fadd.simps
  by (simp, rule round64_eqI[where e = 0 and m = 9007199254740992])
     (simp_all add: power_int_minus)

lemma fdiv_0_5_2: "fdiv (F (1 / 2)) (F 2) = F (1 / 4)"
  unfolding fdiv.simps
  by (simp, rule round64_eqI[where e = "- 2" and m = 4503599627370496])
     (simp_all add: power_int_minus)

section \<open>The feedback classifier\<close>

text \<open>
  C1 (as stated, refuted): a label outside the three allowed ones does not fail; it gets
  the numeric score \<open>0.0\<close>.
\<close>

theorem is_correct_of_unknown_label_counterexample:
  "''Excellent'' \<notin> set feedback_options \<and> is_correct_of ''Excellent'' = F 0"
  by (simp add: feedback_options_def is_correct_of_def lit_0_0_eq)

text \<open>
  C1 (amended): the classifier gives \<open>1.0\<close> to \<open>Accurate\<close>, \<open>0.5\<close> to
  \<open>Partially accurate\<close> and \<open>0.0\<close> to \<open>Inaccurate\<close>, and it gives \<open>0.0\<close> to every
  other label as well; it has no failure.
\<close>

theorem is_correct_of_total:
  "is_correct_of ''Accurate'' = F 1 \<and>
   is_correct_of ''Partially accurate'' = F (1 / 2) \<and>
   is_correct_of ''Inaccurate'' = F 0 \<and>
   (\<forall>fb. fb \<notin> set feedback_options \<longrightarrow> is_correct_of fb = F 0)"
  by (simp add: feedback_options_def is_correct_of_def lit_1_0_eq lit_0_5_eq lit_0_0_eq)

theorem is_correct_of_total_witness:
  "''Mostly fine'' \<notin> set feedback_options \<and> is_correct_of ''Mostly fine'' = F 0"
proof -
  have h: "''Mostly fine'' \<notin> set feedback_options" by (simp add: feedback_options_def)
  show ?thesis using h is_correct_of_total by blast
qed

section \<open>The efficiency score\<close>

text \<open>
  C3: for a row whose \<open>is_correct\<close> and \<open>response_time\<close> are present the efficiency score
  is \<open>is_correct / (response_time + 0.1)\<close> in float arithmetic; it is exactly \<open>10.0\<close>
  for the score \<open>1.0\<close> at response time \<open>0.0\<close> and exactly \<open>0.25\<close> for the score
  \<open>0.5\<close> at response time \<open>1.9\<close>; and for a response time that is not negative the
  divisor is positive (or infinite), so nothing is divided by zero.
\<close>

theorem efficiency_score_formula:
  "(notna (is_correct r) \<and> notna (response_time r) \<longrightarrow>
      efficiency_score r = fdiv (is_correct r) (fadd (response_time r) lit_0_1)) \<and>
   (is_correct r = lit_1_0 \<and> response_time r = lit_0_0 \<longrightarrow> efficiency_score r = F 10) \<and>
   (is_correct r = lit_0_5 \<and> response_time r = lit_1_9 \<longrightarrow> efficiency_score r = F (1 / 4)) \<and>
   (\<forall>t. response_time r = F t \<and> 0 \<le> t \<longrightarrow>
      fadd (fillna (F 0) (response_time r)) lit_0_1 \<noteq> F 0 \<and>
      (fadd (response_time r) lit_0_1 = PosInf \<or>
       (\<exists>d. 0 < d \<and> fadd (response_time r) lit_0_1 = F d)))"
proof (intro conjI impI allI)
  assume "notna (is_correct r) \<and> notna (response_time r)"
  then show "efficiency_score r = fdiv (is_correct r) (fadd (response_time r) lit_0_1)"
    by (simp add: efficiency_score_def fillna_def notna_def)
next
  assume "is_correct r = lit_1_0 \<and> response_time r = lit_0_0"
  then have "efficiency_score r = fdiv (F 1) (fadd (F 0) lit_0_1)"
    by (simp add: efficiency_score_def fillna_def lit_1_0_eq lit_0_0_eq)
  then show "efficiency_score r = F 10"
    by (simp only: fadd_0_0_1 fdiv_1_0_1)
next
  assume "is_correct r = lit_0_5 \<and> response_time r = lit_1_9"
  then have "efficiency_score r = fdiv (F (1 / 2)) (fadd lit_1_9 lit_0_1)"
    by (simp add: efficiency_score_def fillna_def lit_0_5_eq lit_1_9_eq)
  then show "efficiency_score r = F (1 / 4)"
    by (simp only: fadd_1_9_0_1 fdiv_0_5_2)
next
  fix t
  assume a: "response_time r = F t \<and> 0 \<le> t"
  obtain c where c: "lit_0_1 = F c" "2 powi (- 1074) \<le> c" using lit_0_1_pos by blast
  have "2 powi (- 1074) \<le> t + c" using a c(2) by linarith
  then have pos: "round64 (t + c) = PosInf \<or> (\<exists>y. 0 < y \<and> round64 (t + c) = F y)"
    by (rule round64_pos)
  have rt: "response_time r = F t" using a by simp
  have s: "fadd (response_time r) lit_0_1 = round64 (t + c)" unfolding rt c(1) by simp
  show "fadd (response_time r) lit_0_1 = PosInf \<or>
        (\<exists>d. 0 < d \<and> fadd (response_time r) lit_0_1 = F d)"
    unfolding s using pos .
  then show "fadd (fillna (F 0) (response_time r)) lit_0_1 \<noteq> F 0"
    using a by (auto simp: fillna_def)
qed

theorem efficiency_score_formula_witness:
  "notna (is_correct (mk_row 1 lit_1_0 lit_0_0)) \<and> notna (response_time (mk_row 1 lit_1_0 lit_0_0)) \<and>
   response_time (mk_row 1 lit_1_0 lit_0_0) = F 0 \<and> (0::rat) \<le> 0 \<and>
   efficiency_score (mk_row 1 lit_1_0 lit_0_0) = F 10 \<and>
   fadd (fillna (F 0) (response_time (mk_row 1 lit_1_0 lit_0_0))) lit_0_1 \<noteq> F 0 \<and>
   efficiency_score (mk_row 2 lit_0_5 lit_1_9) = F (1 / 4)"
proof -
  have h1: "is_correct (mk_row 1 lit_1_0 lit_0_0) = lit_1_0 \<and>
            response_time (mk_row 1 lit_1_0 lit_0_0) = lit_0_0"
    by (simp add: mk_row_def)
  have h2: "is_correct (mk_row 2 lit_0_5 lit_1_9) = lit_0_5 \<and>
            response_time (mk_row 2 lit_0_5 lit_1_9) = lit_1_9"
    by (simp add: mk_row_def)
  have h3: "response_time (mk_row 1 lit_1_0 lit_0_0) = F 0 \<and> (0::rat) \<le> 0"
    by (simp add: mk_row_def lit_0_0_eq)
  have n: "notna (is_correct (mk_row 1 lit_1_0 lit_0_0)) \<and>
           notna (response_time (mk_row 1 lit_1_0 lit_0_0))"
    by (simp add: mk_row_def notna_def lit_1_0_eq lit_0_0_eq)
  show ?thesis
    using h1 h2 h3 n efficiency_score_formula[of "mk_row 1 lit_1_0 lit_0_0"]
      efficiency_score_formula[of "mk_row 2 lit_0_5 lit_1_9"]
    by blast
qed

section \<open>The comment of a feedback submission\<close>


section \<open>The history filter\<close>

lemma present_eq: "(x \<noteq> NaN \<and> x = F a) = (x = F a)"
  by auto

text \<open>
  C7: for each of the three target scores the history filter returns exactly the rows,
  in their order, whose score is present and equal to the target (float equality, which
  on these three values is plain equality); with \<open>Show All\<close> it returns the frame
  unchanged.
\<close>

theorem history_filter_exact:
  "filtered_df ''Show All'' df = Inr df \<and>
   filtered_df ''Accurate only'' df = Inr (filter (\<lambda>r. is_correct r = F 1) df) \<and>
   filtered_df ''Partially accurate only'' df = Inr (filter (\<lambda>r. is_correct r = F (1 / 2)) df) \<and>
   filtered_df ''Inaccurate only'' df = Inr (filter (\<lambda>r. is_correct r = F 0) df) \<and>
   filter_rows None df = df \<and>
   filter_rows (Some lit_1_0) df = filter (\<lambda>r. is_correct r \<noteq> NaN \<and> is_correct r = lit_1_0) df \<and>
   filter_rows (Some lit_0_5) df = filter (\<lambda>r. is_correct r \<noteq> NaN \<and> is_correct r = lit_0_5) df \<and>
   filter_rows (Some lit_0_0) df = filter (\<lambda>r. is_correct r \<noteq> NaN \<and> is_correct r = lit_0_0) df"
  by (simp add: filtered_df_def filter_options_def filter_rows_def
      lit_1_0_eq lit_0_5_eq lit_0_0_eq feq_def notna_def present_eq)

section \<open>Pagination\<close>

lemma total_pages_bound:
  assumes "1 \<le> p" "p \<le> total_pages df"
  shows "5 * nat (p - 1) < length df"
proof -
  have "p \<le> (int (length df) + 4) div 5"
    using assms(2) by (simp add: total_pages_def items_per_page_def)
  then have "5 * p \<le> int (length df) + 4" by linarith
  then show ?thesis using assms(1) by linarith
qed

lemma paginated_df_in_range:
  assumes "1 \<le> p" "p \<le> total_pages df"
  shows "paginated_df df p = take 5 (drop (5 * nat (p - 1)) df)"
proof -
  have b: "5 * nat (p - 1) < length df" using assms by (rule total_pages_bound)
  define n where "n = int (length df)"
  define s where "s = (p - 1) * 5"
  have s0: "0 \<le> s" "s < n" "nat s = 5 * nat (p - 1)"
    using assms(1) b by (auto simp: s_def n_def)
  have "iloc df s (s + 5) = take (nat (min (s + 5) n - s)) (drop (nat s) df)"
    using s0 by (simp add: iloc_def Let_def n_def min_def)
  also have "\<dots> = take 5 (drop (nat s) df)"
  proof (cases "s + 5 \<le> n")
    case True
    then show ?thesis by (simp add: min_def)
  next
    case False
    then have "nat (min (s + 5) n - s) = length df - nat s"
      using s0 by (simp add: min_def n_def)
    moreover have "length df - nat s \<le> 5" using False s0 by (simp add: n_def)
    ultimately show ?thesis by simp
  qed
  finally show ?thesis
    unfolding paginated_df_def Let_def items_per_page_def s_def[symmetric] s0(3) by simp
qed

lemma display_history_list_page:
  assumes w: "\<forall>lo hi. lo \<le> hi \<longrightarrow> lo \<le> number_input lo hi \<and> number_input lo hi \<le> hi"
    and f: "filtered_df opt h = Inr df" and ne: "df \<noteq> []"
  shows "\<exists>p. 1 \<le> p \<and> p \<le> total_pages df \<and>
           display_history_list opt number_input h =
             Inr (HistoryPage (take 5 (drop (5 * nat (p - 1)) df))
                    (5 * (p - 1) + 1) (min (5 * p) (int (length df))) (int (length df)))"
proof -
  have "1 \<le> length df" using ne by (cases df) auto
  then have tp: "1 \<le> total_pages df" by (simp add: total_pages_def items_per_page_def)
  define p where "p = number_input 1 (total_pages df)"
  have p: "1 \<le> p" "p \<le> total_pages df" using w tp by (simp_all add: p_def)
  have e: "paginated_df df p = take 5 (drop (5 * nat (p - 1)) df)"
    using p by (rule paginated_df_in_range)
  have "display_history_list opt number_input h =
          Inr (HistoryPage (take 5 (drop (5 * nat (p - 1)) df))
                 (5 * (p - 1) + 1) (min (5 * p) (int (length df))) (int (length df)))"
    unfolding display_history_list_def f using ne
    by (simp add: Let_def p_def[symmetric] e items_per_page_def algebra_simps)
  then show ?thesis using p by blast
qed

text \<open>
  C6 (as stated, refuted): the slice of lines 162 to 164 does not clamp the page. With
  twelve rows there are three pages, and the slice for page 100 is empty instead of
  being the slice of page 3.
\<close>

theorem page_beyond_last_counterexample:
  "total_pages rows12 = 3 \<and>
   paginated_df rows12 100 = [] \<and>
   paginated_df rows12 3 = [mk_row 11 lit_1_0 lit_0_0, mk_row 12 lit_1_0 lit_0_0] \<and>
   paginated_df rows12 100 \<noteq> paginated_df rows12 3"
  by (simp add: rows12_def total_pages_def items_per_page_def paginated_df_def iloc_def)

text \<open>
  C6 (amended): for a page \<open>p\<close> with \<open>1 \<le> p \<le> total_pages\<close> the slice is the rows at
  the positions from \<open>(p - 1) * 5\<close> up to, not including, \<open>p * 5\<close>, as far as the frame
  goes, and it is never empty. These are the only pages that reach the slice: the page
  widget is given \<open>min_value = 1\<close> and \<open>max_value = total_pages\<close>, and with a widget
  that keeps to its bounds the tab shows such a page of the filtered frame.
\<close>

theorem pagination_in_range:
  "(1 \<le> p \<and> p \<le> total_pages df \<longrightarrow>
      paginated_df df p = take 5 (drop (5 * nat (p - 1)) df) \<and>
      paginated_df df p \<noteq> [] \<and>
      length (paginated_df df p) = min 5 (length df - 5 * nat (p - 1)) \<and>
      (\<forall>i < length (paginated_df df p). paginated_df df p ! i = df ! (5 * nat (p - 1) + i))) \<and>
   ((\<forall>lo hi. lo \<le> hi \<longrightarrow> lo \<le> number_input lo hi \<and> number_input lo hi \<le> hi) \<and>
    filtered_df opt h = Inr df \<and> df \<noteq> [] \<longrightarrow>
      (\<exists>p'. 1 \<le> p' \<and> p' \<le> total_pages df \<and>
         display_history_list opt number_input h =
           Inr (HistoryPage (take 5 (drop (5 * nat (p' - 1)) df))
                  (5 * (p' - 1) + 1) (min (5 * p') (int (length df))) (int (length df)))))"
proof (intro conjI impI)
  assume a: "1 \<le> p \<and> p \<le> total_pages df"
  then have b: "5 * nat (p - 1) < length df" by (simp add: total_pages_bound)
  have e: "paginated_df df p = take 5 (drop (5 * nat (p - 1)) df)"
    using a by (simp add: paginated_df_in_range)
  show "paginated_df df p = take 5 (drop (5 * nat (p - 1)) df)" by (rule e)
  show "paginated_df df p \<noteq> []" unfolding e using b by auto
  show "length (paginated_df df p) = min 5 (length df - 5 * nat (p - 1))"
    unfolding e by auto
  show "\<forall>i < length (paginated_df df p). paginated_df df p ! i = df ! (5 * nat (p - 1) + i)"
    unfolding e by auto
next
  assume "(\<forall>lo hi. lo \<le> hi \<longrightarrow> lo \<le> number_input lo hi \<and> number_input lo hi \<le> hi) \<and>
          filtered_df opt h = Inr df \<and> df \<noteq> []"
  then show "\<exists>p'. 1 \<le> p' \<and> p' \<le> total_pages df \<and>
         display_history_list opt number_input h =
           Inr (HistoryPage (take 5 (drop (5 * nat (p' - 1)) df))
                  (5 * (p' - 1) + 1) (min (5 * p') (int (length df))) (int (length df)))"
    using display_history_list_page[of number_input opt h df] by blast
qed

theorem pagination_in_range_witness:
  "(1::int) \<le> 3 \<and> 3 \<le> total_pages rows12 \<and>
   paginated_df rows12 1 = take 5 rows12 \<and>
   paginated_df rows12 3 = take 5 (drop 10 rows12) \<and>
   paginated_df rows12 3 \<noteq> [] \<and>
   length (paginated_df rows12 3) = 2 \<and>
   paginated_df rows12 3 ! 1 = rows12 ! 11 \<and>
   filtered_df ''Show All'' rows12 = Inr rows12 \<and> rows12 \<noteq> [] \<and>
   (\<exists>p'. 1 \<le> p' \<and> p' \<le> total_pages rows12 \<and>
      display_history_list ''Show All'' (\<lambda>lo hi. hi) rows12 =
        Inr (HistoryPage (take 5 (drop (5 * nat (p' - 1)) rows12))
               (5 * (p' - 1) + 1) (min (5 * p') (int (length rows12))) (int (length rows12))))"
proof -
  have h1: "(1::int) \<le> 3" by simp
  have t: "total_pages rows12 = 3" by (simp add: rows12_def total_pages_def items_per_page_def)
  have l: "length rows12 = 12" by (simp add: rows12_def)
  have w: "\<forall>lo hi. lo \<le> hi \<longrightarrow> lo \<le> (\<lambda>lo hi :: int. hi) lo hi \<and> (\<lambda>lo hi :: int. hi) lo hi \<le> hi"
    by simp
  have f: "filtered_df ''Show All'' rows12 = Inr rows12"
    by (simp add: filtered_df_def filter_options_def filter_rows_def)
  have ne: "rows12 \<noteq> []" by (simp add: rows12_def)
  note p3 = pagination_in_range[of 3 rows12 "\<lambda>lo hi. hi" "''Show All''" rows12]
  note p1 = pagination_in_range[of 1 rows12 "\<lambda>lo hi. hi" "''Show All''" rows12]
  have r3: "(1::int) \<le> 3 \<and> 3 \<le> total_pages rows12" using t by simp
  have r1: "(1::int) \<le> 1 \<and> 1 \<le> total_pages rows12" using t by simp
  note c3 = p3[THEN conjunct1, THEN mp, OF r3]
  note c1 = p1[THEN conjunct1, THEN mp, OF r1]
  have a3: "paginated_df rows12 3 = take 5 (drop 10 rows12)" using c3 by simp
  have a1: "paginated_df rows12 1 = take 5 rows12" using c1 by simp
  have n3: "paginated_df rows12 3 \<noteq> []" using c3 by blast
  have "length (paginated_df rows12 3) = min 5 (length rows12 - 5 * nat (3 - 1))"
    using c3 by blast
  then have l3: "length (paginated_df rows12 3) = 2" by (simp add: l)
  have "\<forall>i < length (paginated_df rows12 3).
          paginated_df rows12 3 ! i = rows12 ! (5 * nat (3 - 1) + i)"
    using c3 by blast
  then have "paginated_df rows12 3 ! 1 = rows12 ! (5 * nat (3 - 1) + 1)"
    using l3 by simp
  then have i3: "paginated_df rows12 3 ! 1 = rows12 ! 11" by simp
  have d: "\<exists>p'. 1 \<le> p' \<and> p' \<le> total_pages rows12 \<and>
      display_history_list ''Show All'' (\<lambda>lo hi. hi) rows12 =
        Inr (HistoryPage (take 5 (drop (5 * nat (p' - 1)) rows12))
               (5 * (p' - 1) + 1) (min (5 * p') (int (length rows12))) (int (length rows12)))"
    using p3 w f ne by blast
  show ?thesis using h1 t a1 a3 n3 l3 i3 w f ne d by simp
qed

section \<open>The question form\<close>

text \<open>
  C9: a run of the chat page with an empty question text makes no generation call,
  whatever is pressed; when nothing else is pressed in that run it makes no call at all
  and leaves the session as the initialisation of lines 22 to 30 gives it, which is the
  session as it was whenever the four keys were set. A generation call is made exactly
  when the button is pressed with a question text that is not empty, and then with that
  text.
\<close>

theorem chat_empty_question:
  "(user_question w = [] \<longrightarrow>
      (\<forall>q'. Generate q' \<notin> set (snd (display_chat_page gen k w)))) \<and>
   (user_question w = [] \<and> \<not> next_question_button w \<and> \<not> submitted w \<longrightarrow>
      display_chat_page gen k w = (init_session k, [])) \<and>
   (Generate q \<in> set (snd (display_chat_page gen k w)) \<longleftrightarrow>
      submit_button w \<and> user_question w \<noteq> [] \<and> q = user_question w) \<and>
   init_session (keys_of s) = s"
  by (auto simp: display_chat_page_def display_feedback_form_def Let_def init_session_def
      keys_of_def split: prod.splits)

theorem chat_empty_question_witness:
  "user_question (question_form [] True) = [] \<and>
   \<not> next_question_button (question_form [] True) \<and>
   \<not> submitted (question_form [] True) \<and>
   (\<forall>q'. Generate q' \<notin> set (snd (display_chat_page (\<lambda>q. (''An answer.'', lit_0_5))
                                     (keys_of answered_session) (question_form [] True)))) \<and>
   display_chat_page (\<lambda>q. (''An answer.'', lit_0_5)) (keys_of answered_session)
       (question_form [] True) = (answered_session, []) \<and>
   Generate ''Why?'' \<in> set (snd (display_chat_page (\<lambda>q. (''An answer.'', lit_0_5))
                                    (keys_of answered_session) (question_form ''Why?'' True)))"
proof -
  have h: "user_question (question_form [] True) = [] \<and>
           \<not> next_question_button (question_form [] True) \<and>
           \<not> submitted (question_form [] True)"
    by (simp add: question_form_def)
  have g: "submit_button (question_form ''Why?'' True) \<and>
           user_question (question_form ''Why?'' True) \<noteq> [] \<and>
           ''Why?'' = user_question (question_form ''Why?'' True)"
    by (simp add: question_form_def)
  note e = chat_empty_question[of "question_form [] True" "\<lambda>q. (''An answer.'', lit_0_5)"
      "keys_of answered_session" "''Why?''" answered_session]
  note n = chat_empty_question[of "question_form ''Why?'' True" "\<lambda>q. (''An answer.'', lit_0_5)"
      "keys_of answered_session" "''Why?''" answered_session]
  show ?thesis using h g e n by simp
qed

section \<open>The metrics analysis\<close>

lemma analysis_df_drop:
  "is_correct r = NaN \<Longrightarrow> analysis_df (xs @ r # ys) = analysis_df (xs @ ys)"
  by (simp add: analysis_df_def notna_def)

lemma analysis_df_idem: "analysis_df (analysis_df h) = analysis_df h"
  by (simp add: analysis_df_def)

lemma Accuracy_None:
  assumes "is_correct r \<noteq> F 1" "is_correct r \<noteq> F (1 / 2)" "is_correct r \<noteq> F 0"
  shows "Accuracy r = None"
  using assms by (simp add: Accuracy_def accuracy_labels_def lit_1_0_eq lit_0_5_eq lit_0_0_eq)

lemma value_counts_drop_None:
  "value_counts (xs @ None # ys) = value_counts (xs @ ys)"
  by (simp add: value_counts_def)

lemma accuracy_view_drop:
  "Accuracy r = None \<Longrightarrow> (accuracy_view (xs @ r # ys) :: 'd view) = accuracy_view (xs @ ys)"
  by (simp add: accuracy_view_def value_counts_drop_None)

lemma accuracy_groups_drop:
  assumes "Accuracy r = None"
  shows "accuracy_groups m cols (xs @ r # ys) = accuracy_groups m cols (xs @ ys)"
proof -
  have f: "\<And>l. filter (\<lambda>r'. Accuracy r' = Some l) (xs @ r # ys) =
                filter (\<lambda>r'. Accuracy r' = Some l) (xs @ ys)"
    using assms by simp
  have e: "\<And>l. (\<exists>r' \<in> set (xs @ r # ys). Accuracy r' = Some l) =
                (\<exists>r' \<in> set (xs @ ys). Accuracy r' = Some l)"
    using assms by auto
  show ?thesis unfolding accuracy_groups_def f e by (rule refl)
qed

lemma chart_data_drop:
  "Accuracy r = None \<Longrightarrow> chart_data f (xs @ r # ys) = chart_data f (xs @ ys)"
  by (simp add: chart_data_def)

lemma argsort_positions:
  assumes "argsort_desc_ok argsort"
  shows "mset (argsort (map efficiency_score df)) = mset [0..<length df]"
  using assms[unfolded argsort_desc_ok_def, rule_format, of "map efficiency_score df"] by simp

lemma sort_values_mset:
  assumes "argsort_desc_ok argsort"
  shows "mset (sort_values argsort df) = mset df"
proof -
  have "mset (sort_values argsort df) =
          image_mset (\<lambda>i. df ! i) (mset (argsort (map efficiency_score df)))"
    by (simp add: sort_values_def)
  also have "\<dots> = image_mset (\<lambda>i. df ! i) (mset [0..<length df])"
    by (simp only: argsort_positions[OF assms])
  also have "\<dots> = mset (map (\<lambda>i. df ! i) [0..<length df])" by simp
  also have "\<dots> = mset df" by (simp only: map_nth)
  finally show ?thesis .
qed

lemma sort_values_set:
  "argsort_desc_ok argsort \<Longrightarrow> set (sort_values argsort df) = set df"
  using sort_values_mset[of argsort df] by (metis set_mset_mset)

lemma sort_values_length:
  "argsort_desc_ok argsort \<Longrightarrow> length (sort_values argsort df) = length df"
  using sort_values_mset[of argsort df] by (metis size_mset)

lemma sort_values_sorted:
  assumes "argsort_desc_ok argsort"
  shows "sorted (map (\<lambda>r. desc_key (efficiency_score r)) (sort_values argsort df))"
proof -
  define idx where "idx = argsort (map efficiency_score df)"
  have s: "sorted (map (\<lambda>i. desc_key (map efficiency_score df ! i)) idx)"
    using assms[unfolded argsort_desc_ok_def, rule_format, of "map efficiency_score df"]
    by (simp add: idx_def)
  have "set idx = set [0..<length df]"
    using argsort_positions[OF assms, of df] unfolding idx_def by (metis set_mset_mset)
  then have b: "\<forall>i \<in> set idx. i < length df" by simp
  have "map (\<lambda>r. desc_key (efficiency_score r)) (sort_values argsort df) =
          map (\<lambda>i. desc_key (efficiency_score (df ! i))) idx"
    by (simp add: sort_values_def idx_def)
  also have "\<dots> = map (\<lambda>i. desc_key (map efficiency_score df ! i)) idx"
    using b by (intro map_cong) simp_all
  finally show ?thesis using s by simp
qed

lemma stable_argsort_ok: "argsort_desc_ok stable_argsort"
  by (simp add: argsort_desc_ok_def stable_argsort_def)

lemma top_efficiency_length:
  "argsort_desc_ok argsort \<Longrightarrow> length (top_efficiency argsort df) = min 10 (length df)"
  by (simp add: top_efficiency_def sort_values_length min_def)

lemma top_efficiency_all:
  "argsort_desc_ok argsort \<Longrightarrow> length df \<le> 10 \<Longrightarrow> set (top_efficiency argsort df) = set df"
  by (simp add: top_efficiency_def sort_values_length sort_values_set)

lemma top_efficiency_rest:
  assumes "argsort_desc_ok argsort"
  shows "mset df = mset (top_efficiency argsort df) + mset (drop 10 (sort_values argsort df))"
proof -
  have "mset (sort_values argsort df) =
          mset (take 10 (sort_values argsort df)) + mset (drop 10 (sort_values argsort df))"
    by (metis append_take_drop_id mset_append)
  then show ?thesis by (simp add: top_efficiency_def sort_values_mset[OF assms])
qed

lemma top_efficiency_best:
  assumes "argsort_desc_ok argsort"
    and "t \<in> set (top_efficiency argsort df)" "r \<in> set (drop 10 (sort_values argsort df))"
  shows "desc_key (efficiency_score t) \<le> desc_key (efficiency_score r)"
proof -
  have "sorted (map (\<lambda>r. desc_key (efficiency_score r))
                 (take 10 (sort_values argsort df) @ drop 10 (sort_values argsort df)))"
    by (simp add: sort_values_sorted[OF assms(1)])
  then show ?thesis
    using assms(2,3) unfolding top_efficiency_def map_append sorted_append by auto
qed

lemma desc_key_F: "desc_key (F a) \<le> desc_key (F b) \<longleftrightarrow> b \<le> a"
  by auto

lemma valid_cols_mem: "set (valid_cols names df) \<subseteq> set names"
  by (auto simp: valid_cols_def)

lemma metric_view_ok:
  assumes "\<forall>opts. opts \<noteq> [] \<longrightarrow> selectbox opts \<in> set opts"
  shows "\<exists>mv. (metric_view selectbox df :: py_error + 'd view) = Inr mv"
proof (cases "valid_cols metric_options df = []")
  case True
  then show ?thesis by (simp add: metric_view_def)
next
  case False
  then have "selectbox (valid_cols metric_options df) \<in> set (valid_cols metric_options df)"
    using assms by blast
  then have "selectbox (valid_cols metric_options df) \<in> set metric_options"
    using valid_cols_mem by blast
  then obtain f where "column (selectbox (valid_cols metric_options df)) = Some f"
    by (auto simp: metric_options_def column_def)
  then show ?thesis using False by (simp add: metric_view_def Let_def)
qed

lemma display_metrics_analysis_views:
  assumes "\<forall>opts. opts \<noteq> [] \<longrightarrow> selectbox opts \<in> set opts" and "analysis_df h \<noteq> []"
  shows "\<exists>mv. metric_view selectbox (analysis_df h) = Inr mv \<and>
           display_metrics_analysis describe mean selectbox argsort h =
             Inr [accuracy_view (analysis_df h), mv, stats_view describe (analysis_df h),
                  group_view mean (analysis_df h), efficiency_view argsort (analysis_df h)]"
proof -
  obtain mv :: "'a view" where mv: "metric_view selectbox (analysis_df h) = Inr mv"
    using metric_view_ok[OF assms(1)] by blast
  show ?thesis using mv assms(2) by (simp add: display_metrics_analysis_def Let_def)
qed

lemma display_metrics_analysis_drop:
  "is_correct r = NaN \<Longrightarrow>
     display_metrics_analysis describe mean selectbox argsort (xs @ r # ys) =
     display_metrics_analysis describe mean selectbox argsort (xs @ ys)"
  by (simp add: display_metrics_analysis_def analysis_df_drop)

lemma efficiency_view_chart:
  assumes "argsort_desc_ok argsort" and "\<exists>r \<in> set df. notna (response_time r)"
  shows "(efficiency_view argsort df :: 'd view) =
           EfficiencyChart (map (\<lambda>r. (row_id r, efficiency_score r)) (top_efficiency argsort df))"
proof -
  have "df \<noteq> []" using assms(2) by auto
  then have "length (top_efficiency argsort df) \<noteq> 0"
    by (simp add: top_efficiency_length[OF assms(1)])
  then have "top_efficiency argsort df \<noteq> []" by auto
  then show ?thesis using assms(2) by (simp add: efficiency_view_def)
qed

lemma efficiency_view_no_time:
  assumes "\<not> (\<exists>r \<in> set df. notna (response_time r))"
  shows "(efficiency_view argsort df :: 'd view) =
           Info ''No response time data available to calculate efficiency score.''"
  using assms by (simp add: efficiency_view_def)

lemma efficiency_score_no_time: "efficiency_score (mk_row i lit_1_0 NaN) = F 10"
  by (simp add: efficiency_score_def mk_row_def fillna_def lit_1_0_eq fadd_0_0_1 fdiv_1_0_1
      del: fdiv.simps fadd.simps)

lemma efficiency_score_zero_time: "efficiency_score (mk_row i lit_1_0 lit_0_0) = F 10"
  by (simp add: efficiency_score_def mk_row_def fillna_def lit_1_0_eq lit_0_0_eq fadd_0_0_1
      fdiv_1_0_1 del: fdiv.simps fadd.simps)

lemma efficiency_score_quarter: "efficiency_score (mk_row i lit_0_5 lit_1_9) = F (1 / 4)"
proof -
  have "lit_1_9 \<noteq> NaN" by (simp add: lit_1_9_eq)
  then have "efficiency_score (mk_row i lit_0_5 lit_1_9) = fdiv lit_0_5 (fadd lit_1_9 lit_0_1)"
    by (simp add: efficiency_score_def mk_row_def fillna_def)
  then show ?thesis by (simp only: lit_0_5_eq fadd_1_9_0_1 fdiv_0_5_2)
qed

lemma two_positions:
  assumes "mset xs = mset [0..<length [a, b]]"
  shows "xs = [0, Suc 0] \<or> xs = [Suc 0, 0]"
proof -
  have m: "mset xs = {#0, Suc 0#}" using assms by simp
  then have "length xs = 2" by (metis size_mset size_add_mset size_empty numeral_2_eq_2)
  then obtain x y where xs: "xs = [x, y]"
    by (metis length_0_conv length_Suc_conv numeral_2_eq_2)
  show ?thesis using m unfolding xs by (auto simp: add_eq_conv_ex)
qed

lemma sort_values_missing_time:
  assumes "argsort_desc_ok argsort"
  shows "sort_values argsort rows_missing_time = rows_missing_time"
proof -
  define keys where "keys = [F 10, F (1 / 4)]"
  have k: "map efficiency_score rows_missing_time = keys"
    by (simp add: rows_missing_time_def keys_def efficiency_score_no_time efficiency_score_quarter)
  have p: "mset (argsort keys) = mset [0..<length [F 10, F (1 / 4)]]"
    using assms[unfolded argsort_desc_ok_def, rule_format, of keys] by (simp add: keys_def)
  have s: "sorted (map (\<lambda>i. desc_key (keys ! i)) (argsort keys))"
    using assms[unfolded argsort_desc_ok_def, rule_format, of keys] by simp
  have "argsort keys = [0, Suc 0] \<or> argsort keys = [Suc 0, 0]" using p by (rule two_positions)
  then have "argsort keys = [0, Suc 0]"
  proof
    assume "argsort keys = [0, Suc 0]"
    then show ?thesis .
  next
    assume "argsort keys = [Suc 0, 0]"
    then have False using s by (simp add: keys_def)
    then show ?thesis ..
  qed
  then show ?thesis
    unfolding sort_values_def k by (simp add: rows_missing_time_def)
qed

lemma efficiency_view_missing_time:
  assumes "argsort_desc_ok argsort"
  shows "efficiency_view argsort rows_missing_time =
           (EfficiencyChart [(1, F 10), (2, F (1 / 4))] :: 'd view)"
proof -
  have n: "\<exists>r \<in> set rows_missing_time. notna (response_time r)"
    by (simp add: rows_missing_time_def mk_row_def notna_def lit_1_9_eq)
  have "top_efficiency argsort rows_missing_time = take 10 rows_missing_time"
    by (simp only: top_efficiency_def sort_values_missing_time[OF assms])
  then have t: "top_efficiency argsort rows_missing_time = rows_missing_time"
    by (simp add: rows_missing_time_def)
  have "(efficiency_view argsort rows_missing_time :: 'd view) =
          EfficiencyChart (map (\<lambda>r. (row_id r, efficiency_score r)) rows_missing_time)"
    using efficiency_view_chart[OF assms n] unfolding t .
  also have "map (\<lambda>r. (row_id r, efficiency_score r)) rows_missing_time =
               [(1, F 10), (2, F (1 / 4))]"
    by (simp add: rows_missing_time_def efficiency_score_no_time efficiency_score_quarter)
       (simp add: mk_row_def)
  finally show ?thesis .
qed

lemma efficiency_view_two_rows:
  assumes "argsort_desc_ok argsort" and "\<exists>r \<in> set [r1, r2]. notna (response_time r)"
  shows "(efficiency_view argsort [r1, r2] :: 'd view) =
           EfficiencyChart (map (\<lambda>i. (row_id ([r1, r2] ! i), efficiency_score ([r1, r2] ! i)))
             (argsort [efficiency_score r1, efficiency_score r2]))"
proof -
  have l: "length (sort_values argsort [r1, r2]) = 2"
    using sort_values_length[OF assms(1), of "[r1, r2]"] by simp
  have "top_efficiency argsort [r1, r2] = sort_values argsort [r1, r2]"
    using l by (simp add: top_efficiency_def)
  then have "(efficiency_view argsort [r1, r2] :: 'd view) =
      EfficiencyChart (map (\<lambda>r. (row_id r, efficiency_score r)) (sort_values argsort [r1, r2]))"
    using efficiency_view_chart[OF assms] by simp
  then show ?thesis by (simp add: sort_values_def comp_def)
qed

lemma ties_not_by_id:
  assumes ok: "argsort_desc_ok argsort"
    and a: "efficiency_view argsort [mk_row 1 lit_1_0 lit_0_0, mk_row 2 lit_1_0 lit_0_0] =
              (EfficiencyChart [(1, F 10), (2, F 10)] :: 'd view)"
    and b: "efficiency_view argsort [mk_row 2 lit_1_0 lit_0_0, mk_row 1 lit_1_0 lit_0_0] =
              (EfficiencyChart [(1, F 10), (2, F 10)] :: 'd view)"
  shows False
proof -
  define keys where "keys = [F 10, F 10]"
  define ra where "ra = mk_row 1 lit_1_0 lit_0_0"
  define rb where "rb = mk_row 2 lit_1_0 lit_0_0"
  have ea: "efficiency_score ra = F 10" and eb: "efficiency_score rb = F 10"
    by (simp_all add: ra_def rb_def efficiency_score_zero_time)
  have ia: "row_id ra = 1" and ib: "row_id rb = 2" by (simp_all add: ra_def rb_def mk_row_def)
  have na: "\<exists>r \<in> set [ra, rb]. notna (response_time r)"
    by (simp add: ra_def mk_row_def notna_def lit_0_0_eq)
  have nb: "\<exists>r \<in> set [rb, ra]. notna (response_time r)"
    by (simp add: ra_def mk_row_def notna_def lit_0_0_eq)
  have p: "mset (argsort keys) = mset [0..<length [F 10, F 10]]"
    using ok[unfolded argsort_desc_ok_def, rule_format, of keys] by (simp add: keys_def)
  have c: "argsort keys = [0, Suc 0] \<or> argsort keys = [Suc 0, 0]" using p by (rule two_positions)
  have va: "(efficiency_view argsort [ra, rb] :: 'd view) =
      EfficiencyChart (map (\<lambda>i. (row_id ([ra, rb] ! i), efficiency_score ([ra, rb] ! i)))
        (argsort keys))"
    using efficiency_view_two_rows[OF ok na] unfolding ea eb keys_def .
  have vb: "(efficiency_view argsort [rb, ra] :: 'd view) =
      EfficiencyChart (map (\<lambda>i. (row_id ([rb, ra] ! i), efficiency_score ([rb, ra] ! i)))
        (argsort keys))"
    using efficiency_view_two_rows[OF ok nb] unfolding ea eb keys_def .
  have a': "(efficiency_view argsort [ra, rb] :: 'd view) = EfficiencyChart [(1, F 10), (2, F 10)]"
    using a by (simp only: ra_def rb_def)
  have b': "(efficiency_view argsort [rb, ra] :: 'd view) = EfficiencyChart [(1, F 10), (2, F 10)]"
    using b by (simp only: ra_def rb_def)
  from c show False
  proof
    assume i: "argsort keys = [0, Suc 0]"
    have "(efficiency_view argsort [rb, ra] :: 'd view) = EfficiencyChart [(2, F 10), (1, F 10)]"
      unfolding vb i by (simp add: ea eb ia ib)
    then show False using b' by simp
  next
    assume i: "argsort keys = [Suc 0, 0]"
    have "(efficiency_view argsort [ra, rb] :: 'd view) = EfficiencyChart [(2, F 10), (1, F 10)]"
      unfolding va i by (simp add: ea eb ia ib)
    then show False using a' by simp
  qed
qed

text \<open>
  C2 (as stated, refuted), for every sort that line 265 admits. A row without a response
  time is not left out of the ranking: of two rows with feedback, the first without a
  response time, the chart shows both, and the row without a response time comes first
  with the score \<open>10.0\<close>. And rows of equal score are not put in the order of their
  \<open>id\<close>: no sort puts the two rows with the ids 1 and 2 and the same score in that
  order both when the frame holds them as 1, 2 and when it holds them as 2, 1.
\<close>

theorem ranking_keeps_missing_time_counterexample:
  "argsort_desc_ok stable_argsort \<and>
   response_time (mk_row 1 lit_1_0 NaN) = NaN \<and>
   efficiency_view stable_argsort rows_missing_time =
     (EfficiencyChart [(1, F 10), (2, F (1 / 4))] :: unit view) \<and>
   \<not> (\<exists>argsort. argsort_desc_ok argsort \<and>
         efficiency_view argsort rows_missing_time \<noteq>
           (EfficiencyChart [(1, F 10), (2, F (1 / 4))] :: unit view)) \<and>
   \<not> (\<exists>argsort. argsort_desc_ok argsort \<and>
         efficiency_view argsort [mk_row 1 lit_1_0 lit_0_0, mk_row 2 lit_1_0 lit_0_0] =
           (EfficiencyChart [(1, F 10), (2, F 10)] :: unit view) \<and>
         efficiency_view argsort [mk_row 2 lit_1_0 lit_0_0, mk_row 1 lit_1_0 lit_0_0] =
           (EfficiencyChart [(1, F 10), (2, F 10)] :: unit view))"
proof (intro conjI)
  show "argsort_desc_ok stable_argsort" by (rule stable_argsort_ok)
  show "response_time (mk_row 1 lit_1_0 NaN) = NaN" by (simp add: mk_row_def)
  show "efficiency_view stable_argsort rows_missing_time =
     (EfficiencyChart [(1, F 10), (2, F (1 / 4))] :: unit view)"
    using stable_argsort_ok by (rule efficiency_view_missing_time)
  show "\<not> (\<exists>argsort. argsort_desc_ok argsort \<and>
         efficiency_view argsort rows_missing_time \<noteq>
           (EfficiencyChart [(1, F 10), (2, F (1 / 4))] :: unit view))"
    using efficiency_view_missing_time by blast
  show "\<not> (\<exists>argsort. argsort_desc_ok argsort \<and>
         efficiency_view argsort [mk_row 1 lit_1_0 lit_0_0, mk_row 2 lit_1_0 lit_0_0] =
           (EfficiencyChart [(1, F 10), (2, F 10)] :: unit view) \<and>
         efficiency_view argsort [mk_row 2 lit_1_0 lit_0_0, mk_row 1 lit_1_0 lit_0_0] =
           (EfficiencyChart [(1, F 10), (2, F 10)] :: unit view))"
    using ties_not_by_id[where ?'d = unit] by blast
qed

text \<open>
  C2 (amended), for every sort that line 265 admits. When some row of the frame has a
  response time, the chart shows the \<open>id\<close> and the score of the rows of
  \<open>top_efficiency\<close>; when no row has one, there is no chart but the message of line 276.
  The rows of \<open>top_efficiency\<close> are ten rows of the frame, or all of them when there are
  fewer; they are in the order of falling scores (for the sort key, a smaller key is a
  greater score, and \<open>NaN\<close> has the greatest key); and no row left out has a greater
  score than a row shown. A row without a response time takes part with the score
  \<open>is_correct / (0 + 0.1)\<close>. Nothing is said on the order of rows of equal score.
\<close>

theorem efficiency_ranking:
  "argsort_desc_ok argsort \<longrightarrow>
     ((\<exists>r \<in> set df. notna (response_time r)) \<longrightarrow>
        (efficiency_view argsort df :: 'd view) =
          EfficiencyChart (map (\<lambda>r. (row_id r, efficiency_score r)) (top_efficiency argsort df))) \<and>
     (\<not> (\<exists>r \<in> set df. notna (response_time r)) \<longrightarrow>
        (efficiency_view argsort df :: 'd view) =
          Info ''No response time data available to calculate efficiency score.'') \<and>
     length (top_efficiency argsort df) = min 10 (length df) \<and>
     mset (top_efficiency argsort df) \<subseteq># mset df \<and>
     sorted (map (\<lambda>r. desc_key (efficiency_score r)) (top_efficiency argsort df)) \<and>
     (\<forall>t \<in> set (top_efficiency argsort df). \<forall>r \<in># mset df - mset (top_efficiency argsort df).
        desc_key (efficiency_score t) \<le> desc_key (efficiency_score r)) \<and>
     (response_time r = NaN \<longrightarrow> efficiency_score r = fdiv (is_correct r) (fadd (F 0) lit_0_1)) \<and>
     (desc_key (F a) \<le> desc_key (F b) \<longleftrightarrow> b \<le> a)"
proof (intro conjI impI ballI)
  assume ok: "argsort_desc_ok argsort"
  {
    assume "\<exists>r \<in> set df. notna (response_time r)"
    with ok show "(efficiency_view argsort df :: 'd view) =
          EfficiencyChart (map (\<lambda>r. (row_id r, efficiency_score r)) (top_efficiency argsort df))"
      by (rule efficiency_view_chart)
  }
  {
    assume "\<not> (\<exists>r \<in> set df. notna (response_time r))"
    then show "(efficiency_view argsort df :: 'd view) =
          Info ''No response time data available to calculate efficiency score.''"
      by (rule efficiency_view_no_time)
  }
  show "length (top_efficiency argsort df) = min 10 (length df)"
    using ok by (rule top_efficiency_length)
  show "mset (top_efficiency argsort df) \<subseteq># mset df"
    using top_efficiency_rest[OF ok, of df] by (metis mset_subset_eq_add_left)
  have "sorted (take 10 (map (\<lambda>r. desc_key (efficiency_score r)) (sort_values argsort df)))"
    using sort_values_sorted[OF ok] by (rule sorted_wrt_take)
  then show "sorted (map (\<lambda>r. desc_key (efficiency_score r)) (top_efficiency argsort df))"
    by (simp add: top_efficiency_def take_map)
  {
    fix t r'
    assume t: "t \<in> set (top_efficiency argsort df)"
      and r: "r' \<in># mset df - mset (top_efficiency argsort df)"
    have "mset df - mset (top_efficiency argsort df) = mset (drop 10 (sort_values argsort df))"
      using top_efficiency_rest[OF ok, of df] by simp
    then have "r' \<in> set (drop 10 (sort_values argsort df))" using r by simp
    then show "desc_key (efficiency_score t) \<le> desc_key (efficiency_score r')"
      using ok t by (simp add: top_efficiency_best)
  }
  {
    assume "response_time r = NaN"
    then show "efficiency_score r = fdiv (is_correct r) (fadd (F 0) lit_0_1)"
      by (simp add: efficiency_score_def fillna_def)
  }
  show "desc_key (F a) \<le> desc_key (F b) \<longleftrightarrow> b \<le> a" by (rule desc_key_F)
qed

text \<open>
  C5: a row without feedback contributes to nothing the metrics tab shows. The result is
  the same with and without such a row, wherever it stands in the frame; it is a function
  of the rows with feedback alone; and each of the five views (accuracy distribution,
  metric against response time, statistics, averages by accuracy, efficiency ranking) is
  computed from the frame \<open>analysis_df\<close>, whose rows all have a score.
\<close>

theorem analytics_ignore_rows_without_feedback:
  "(is_correct r = NaN \<longrightarrow>
      display_metrics_analysis describe mean selectbox argsort (xs @ r # ys) =
      display_metrics_analysis describe mean selectbox argsort (xs @ ys)) \<and>
   display_metrics_analysis describe mean selectbox argsort (analysis_df h) =
     display_metrics_analysis describe mean selectbox argsort h \<and>
   (\<forall>r' \<in> set (analysis_df h). notna (is_correct r')) \<and>
   ((\<forall>opts. opts \<noteq> [] \<longrightarrow> selectbox opts \<in> set opts) \<and> analysis_df h \<noteq> [] \<longrightarrow>
      (\<exists>mv. metric_view selectbox (analysis_df h) = Inr mv \<and>
         display_metrics_analysis describe mean selectbox argsort h =
           Inr [accuracy_view (analysis_df h), mv, stats_view describe (analysis_df h),
                group_view mean (analysis_df h), efficiency_view argsort (analysis_df h)]))"
proof (intro conjI impI)
  assume "is_correct r = NaN"
  then show "display_metrics_analysis describe mean selectbox argsort (xs @ r # ys) =
      display_metrics_analysis describe mean selectbox argsort (xs @ ys)"
    by (rule display_metrics_analysis_drop)
next
  show "display_metrics_analysis describe mean selectbox argsort (analysis_df h) =
     display_metrics_analysis describe mean selectbox argsort h"
    by (simp add: display_metrics_analysis_def analysis_df_idem)
next
  show "\<forall>r' \<in> set (analysis_df h). notna (is_correct r')"
    by (simp add: analysis_df_def)
next
  assume "(\<forall>opts. opts \<noteq> [] \<longrightarrow> selectbox opts \<in> set opts) \<and> analysis_df h \<noteq> []"
  then show "\<exists>mv. metric_view selectbox (analysis_df h) = Inr mv \<and>
         display_metrics_analysis describe mean selectbox argsort h =
           Inr [accuracy_view (analysis_df h), mv, stats_view describe (analysis_df h),
                group_view mean (analysis_df h), efficiency_view argsort (analysis_df h)]"
    using display_metrics_analysis_views[of selectbox h describe mean argsort] by blast
qed


text \<open>
  C10: a row with feedback whose score is none of \<open>1.0\<close>, \<open>0.5\<close>, \<open>0.0\<close> has no
  accuracy label. Taking it out of the frame changes neither the accuracy distribution
  nor the averages by accuracy of any columns. It is still among the rows that are sorted
  for the efficiency ranking, whichever sort line 265 uses, with the score
  \<open>is_correct / (response_time + 0.1)\<close> when its response time is present, and it is in
  the chart when the frame has at most ten rows with feedback.
\<close>

theorem unlabelled_score_row:
  "notna (is_correct r) \<and> is_correct r \<noteq> lit_1_0 \<and> is_correct r \<noteq> lit_0_5 \<and>
   is_correct r \<noteq> lit_0_0 \<longrightarrow>
     Accuracy r = None \<and>
     value_counts (map Accuracy (xs @ r # ys)) = value_counts (map Accuracy (xs @ ys)) \<and>
     (accuracy_view (xs @ r # ys) :: 'd view) = accuracy_view (xs @ ys) \<and>
     accuracy_groups mean cols (xs @ r # ys) = accuracy_groups mean cols (xs @ ys) \<and>
     r \<in> set (analysis_df (xs @ r # ys)) \<and>
     (argsort_desc_ok argsort \<longrightarrow> r \<in> set (sort_values argsort (analysis_df (xs @ r # ys)))) \<and>
     (notna (response_time r) \<longrightarrow>
        efficiency_score r = fdiv (is_correct r) (fadd (response_time r) lit_0_1)) \<and>
     (argsort_desc_ok argsort \<and> notna (response_time r) \<and>
      length (analysis_df (xs @ r # ys)) \<le> 10 \<longrightarrow>
        (\<exists>chart. (efficiency_view argsort (analysis_df (xs @ r # ys)) :: 'd view) =
                    EfficiencyChart chart \<and>
           (row_id r, efficiency_score r) \<in> set chart))"
proof (intro impI)
  assume a: "notna (is_correct r) \<and> is_correct r \<noteq> lit_1_0 \<and> is_correct r \<noteq> lit_0_5 \<and>
             is_correct r \<noteq> lit_0_0"
  have n: "Accuracy r = None"
    using a by (simp add: Accuracy_None lit_1_0_eq lit_0_5_eq lit_0_0_eq)
  have m: "r \<in> set (analysis_df (xs @ r # ys))" using a by (simp add: analysis_df_def)
  have s: "argsort_desc_ok argsort \<longrightarrow> r \<in> set (sort_values argsort (analysis_df (xs @ r # ys)))"
    using m by (simp add: sort_values_set)
  have f: "notna (response_time r) \<longrightarrow>
        efficiency_score r = fdiv (is_correct r) (fadd (response_time r) lit_0_1)"
    by (simp add: efficiency_score_def fillna_def notna_def)
  have c: "argsort_desc_ok argsort \<and> notna (response_time r) \<and>
      length (analysis_df (xs @ r # ys)) \<le> 10 \<longrightarrow>
        (\<exists>chart. (efficiency_view argsort (analysis_df (xs @ r # ys)) :: 'd view) =
                    EfficiencyChart chart \<and>
           (row_id r, efficiency_score r) \<in> set chart)"
  proof
    assume b: "argsort_desc_ok argsort \<and> notna (response_time r) \<and>
      length (analysis_df (xs @ r # ys)) \<le> 10"
    then have ok: "argsort_desc_ok argsort" by simp
    have "\<exists>r' \<in> set (analysis_df (xs @ r # ys)). notna (response_time r')" using m b by blast
    with ok have v: "(efficiency_view argsort (analysis_df (xs @ r # ys)) :: 'd view) =
        EfficiencyChart (map (\<lambda>r. (row_id r, efficiency_score r))
          (top_efficiency argsort (analysis_df (xs @ r # ys))))"
      by (rule efficiency_view_chart)
    have "r \<in> set (top_efficiency argsort (analysis_df (xs @ r # ys)))"
      using b m by (simp add: top_efficiency_all)
    then have "(row_id r, efficiency_score r) \<in>
        set (map (\<lambda>r. (row_id r, efficiency_score r))
               (top_efficiency argsort (analysis_df (xs @ r # ys))))"
      by (simp add: image_iff) blast
    then show "\<exists>chart. (efficiency_view argsort (analysis_df (xs @ r # ys)) :: 'd view) =
                    EfficiencyChart chart \<and>
           (row_id r, efficiency_score r) \<in> set chart"
      using v by blast
  qed
  show "Accuracy r = None \<and>
     value_counts (map Accuracy (xs @ r # ys)) = value_counts (map Accuracy (xs @ ys)) \<and>
     (accuracy_view (xs @ r # ys) :: 'd view) = accuracy_view (xs @ ys) \<and>
     accuracy_groups mean cols (xs @ r # ys) = accuracy_groups mean cols (xs @ ys) \<and>
     r \<in> set (analysis_df (xs @ r # ys)) \<and>
     (argsort_desc_ok argsort \<longrightarrow> r \<in> set (sort_values argsort (analysis_df (xs @ r # ys)))) \<and>
     (notna (response_time r) \<longrightarrow>
        efficiency_score r = fdiv (is_correct r) (fadd (response_time r) lit_0_1)) \<and>
     (argsort_desc_ok argsort \<and> notna (response_time r) \<and>
      length (analysis_df (xs @ r # ys)) \<le> 10 \<longrightarrow>
        (\<exists>chart. (efficiency_view argsort (analysis_df (xs @ r # ys)) :: 'd view) =
                    EfficiencyChart chart \<and>
           (row_id r, efficiency_score r) \<in> set chart))"
    using n m s f c
    by (simp add: value_counts_drop_None accuracy_view_drop accuracy_groups_drop)
qed

theorem efficiency_ranking_witness:
  "argsort_desc_ok stable_argsort \<and>
   (\<exists>r \<in> set rows_missing_time. notna (response_time r)) \<and>
   \<not> (\<exists>r \<in> set [mk_row 1 lit_1_0 NaN]. notna (response_time r)) \<and>
   response_time (mk_row 1 lit_1_0 NaN) = NaN \<and>
   efficiency_view stable_argsort rows_missing_time =
     (EfficiencyChart (map (\<lambda>r. (row_id r, efficiency_score r))
        (top_efficiency stable_argsort rows_missing_time)) :: unit view) \<and>
   efficiency_view stable_argsort [mk_row 1 lit_1_0 NaN] =
     (Info ''No response time data available to calculate efficiency score.'' :: unit view) \<and>
   length (top_efficiency stable_argsort rows_missing_time) = 2 \<and>
   efficiency_score (mk_row 1 lit_1_0 NaN) =
     fdiv (is_correct (mk_row 1 lit_1_0 NaN)) (fadd (F 0) lit_0_1) \<and>
   set (top_efficiency stable_argsort rows_missing_time) \<noteq> {}"
proof -
  have ok: "argsort_desc_ok stable_argsort" by (rule stable_argsort_ok)
  have h1: "\<exists>r \<in> set rows_missing_time. notna (response_time r)"
    by (simp add: rows_missing_time_def mk_row_def notna_def lit_1_9_eq)
  have h2: "response_time (mk_row 1 lit_1_0 NaN) = NaN" by (simp add: mk_row_def)
  have h3: "\<not> (\<exists>r \<in> set [mk_row 1 lit_1_0 NaN]. notna (response_time r))"
    by (simp add: mk_row_def notna_def)
  have l: "length rows_missing_time = 2" by (simp add: rows_missing_time_def)
  note t = efficiency_ranking[of stable_argsort rows_missing_time "mk_row 1 lit_1_0 NaN" 1 2,
      where ?'d = unit, THEN mp, OF ok]
  note u = efficiency_ranking[of stable_argsort "[mk_row 1 lit_1_0 NaN]" "mk_row 1 lit_1_0 NaN" 1 2,
      where ?'d = unit, THEN mp, OF ok]
  have v: "efficiency_view stable_argsort rows_missing_time =
     (EfficiencyChart (map (\<lambda>r. (row_id r, efficiency_score r))
        (top_efficiency stable_argsort rows_missing_time)) :: unit view)"
    using t h1 by blast
  have i: "efficiency_view stable_argsort [mk_row 1 lit_1_0 NaN] =
     (Info ''No response time data available to calculate efficiency score.'' :: unit view)"
    using u h3 by blast
  have n: "length (top_efficiency stable_argsort rows_missing_time) = 2" using t l by simp
  have e: "efficiency_score (mk_row 1 lit_1_0 NaN) =
             fdiv (is_correct (mk_row 1 lit_1_0 NaN)) (fadd (F 0) lit_0_1)"
    using t h2 by blast
  have s: "set (top_efficiency stable_argsort rows_missing_time) \<noteq> {}" using n by auto
  show ?thesis using ok h1 h3 h2 v i n e s by blast
qed

theorem analytics_ignore_rows_without_feedback_witness:
  "is_correct (mk_row 2 NaN lit_1_9) = NaN \<and>
   display_metrics_analysis length (\<lambda>col. NaN) hd stable_argsort ([mk_row 1 lit_1_0 lit_0_0] @ mk_row 2 NaN lit_1_9 # []) =
     display_metrics_analysis length (\<lambda>col. NaN) hd stable_argsort ([mk_row 1 lit_1_0 lit_0_0] @ []) \<and>
   analysis_df [mk_row 1 lit_1_0 lit_0_0, mk_row 2 NaN lit_1_9] = [mk_row 1 lit_1_0 lit_0_0] \<and>
   (\<exists>mv. display_metrics_analysis length (\<lambda>col. NaN) hd stable_argsort [mk_row 1 lit_1_0 lit_0_0, mk_row 2 NaN lit_1_9] =
           Inr [accuracy_view [mk_row 1 lit_1_0 lit_0_0], mv,
                stats_view length [mk_row 1 lit_1_0 lit_0_0],
                group_view (\<lambda>col. NaN) [mk_row 1 lit_1_0 lit_0_0],
                efficiency_view stable_argsort [mk_row 1 lit_1_0 lit_0_0]])"
proof -
  have h1: "is_correct (mk_row 2 NaN lit_1_9) = NaN" by (simp add: mk_row_def)
  have h2: "\<forall>opts :: string list. opts \<noteq> [] \<longrightarrow> hd opts \<in> set opts" by simp
  have a: "analysis_df [mk_row 1 lit_1_0 lit_0_0, mk_row 2 NaN lit_1_9] = [mk_row 1 lit_1_0 lit_0_0]"
    by (simp add: analysis_df_def mk_row_def notna_def lit_1_0_eq)
  have h3: "analysis_df [mk_row 1 lit_1_0 lit_0_0, mk_row 2 NaN lit_1_9] \<noteq> []" using a by simp
  note t = analytics_ignore_rows_without_feedback[of "mk_row 2 NaN lit_1_9" length "\<lambda>col. NaN" hd
      stable_argsort "[mk_row 1 lit_1_0 lit_0_0]" "[]"
      "[mk_row 1 lit_1_0 lit_0_0, mk_row 2 NaN lit_1_9]"]
  have d: "display_metrics_analysis length (\<lambda>col. NaN) hd stable_argsort ([mk_row 1 lit_1_0 lit_0_0] @ mk_row 2 NaN lit_1_9 # []) =
     display_metrics_analysis length (\<lambda>col. NaN) hd stable_argsort ([mk_row 1 lit_1_0 lit_0_0] @ [])"
    using t h1 by blast
  have v: "\<exists>mv. metric_view hd (analysis_df [mk_row 1 lit_1_0 lit_0_0, mk_row 2 NaN lit_1_9]) = Inr mv \<and>
         display_metrics_analysis length (\<lambda>col. NaN) hd stable_argsort [mk_row 1 lit_1_0 lit_0_0, mk_row 2 NaN lit_1_9] =
           Inr [accuracy_view (analysis_df [mk_row 1 lit_1_0 lit_0_0, mk_row 2 NaN lit_1_9]), mv,
                stats_view length (analysis_df [mk_row 1 lit_1_0 lit_0_0, mk_row 2 NaN lit_1_9]),
                group_view (\<lambda>col. NaN) (analysis_df [mk_row 1 lit_1_0 lit_0_0, mk_row 2 NaN lit_1_9]),
                efficiency_view stable_argsort (analysis_df [mk_row 1 lit_1_0 lit_0_0, mk_row 2 NaN lit_1_9])]"
    using t h2 h3 by blast
  show ?thesis using h1 d h2 a v unfolding a by blast
qed


theorem unlabelled_score_row_witness:
  "notna (is_correct (mk_row 2 (F (7 / 10)) lit_0_0)) \<and>
   is_correct (mk_row 2 (F (7 / 10)) lit_0_0) \<noteq> lit_1_0 \<and>
   is_correct (mk_row 2 (F (7 / 10)) lit_0_0) \<noteq> lit_0_5 \<and>
   is_correct (mk_row 2 (F (7 / 10)) lit_0_0) \<noteq> lit_0_0 \<and>
   argsort_desc_ok stable_argsort \<and>
   notna (response_time (mk_row 2 (F (7 / 10)) lit_0_0)) \<and>
   length (analysis_df ([mk_row 1 lit_1_0 lit_0_0] @ mk_row 2 (F (7 / 10)) lit_0_0 # [])) \<le> 10 \<and>
   Accuracy (mk_row 2 (F (7 / 10)) lit_0_0) = None \<and>
   accuracy_groups (\<lambda>col. NaN) stats_cols ([mk_row 1 lit_1_0 lit_0_0] @ mk_row 2 (F (7 / 10)) lit_0_0 # []) =
     accuracy_groups (\<lambda>col. NaN) stats_cols ([mk_row 1 lit_1_0 lit_0_0] @ []) \<and>
   mk_row 2 (F (7 / 10)) lit_0_0 \<in>
     set (sort_values stable_argsort
            (analysis_df ([mk_row 1 lit_1_0 lit_0_0] @ mk_row 2 (F (7 / 10)) lit_0_0 # []))) \<and>
   (\<exists>chart. efficiency_view stable_argsort
               (analysis_df ([mk_row 1 lit_1_0 lit_0_0] @ mk_row 2 (F (7 / 10)) lit_0_0 # [])) =
        (EfficiencyChart chart :: unit view) \<and>
      (row_id (mk_row 2 (F (7 / 10)) lit_0_0), efficiency_score (mk_row 2 (F (7 / 10)) lit_0_0)) \<in> set chart)"
proof -
  have h1: "notna (is_correct (mk_row 2 (F (7 / 10)) lit_0_0)) \<and>
   is_correct (mk_row 2 (F (7 / 10)) lit_0_0) \<noteq> lit_1_0 \<and>
   is_correct (mk_row 2 (F (7 / 10)) lit_0_0) \<noteq> lit_0_5 \<and>
   is_correct (mk_row 2 (F (7 / 10)) lit_0_0) \<noteq> lit_0_0"
    by (simp add: mk_row_def notna_def lit_1_0_eq lit_0_5_eq lit_0_0_eq)
  have h2: "notna (response_time (mk_row 2 (F (7 / 10)) lit_0_0)) \<and>
   length (analysis_df ([mk_row 1 lit_1_0 lit_0_0] @ mk_row 2 (F (7 / 10)) lit_0_0 # [])) \<le> 10"
    by (simp add: mk_row_def notna_def lit_0_0_eq analysis_df_def)
  have ok: "argsort_desc_ok stable_argsort" by (rule stable_argsort_ok)
  note t = unlabelled_score_row[of "mk_row 2 (F (7 / 10)) lit_0_0" "[mk_row 1 lit_1_0 lit_0_0]" "[]"
      "\<lambda>col. NaN" stats_cols stable_argsort, where ?'d = unit]
  show ?thesis using h1 h2 ok t by blast
qed

end
